theory Spec2Isabelle
  imports Complex_Main
begin

section \<open>Samples\<close>

text \<open>
  The docstring of \<^verbatim>\<open>testingCcascade\<close> declares both samples as Python lists; the calls at
  the end of the module pass numpy arrays (the output of \<^verbatim>\<open>stats.norm.rvs\<close>). Both kinds
  of sequence are kept apart, since the operator \<^verbatim>\<open>-\<close> of line 79 treats them differently.
  Floats are idealised as reals.
\<close>

datatype sample = PyList "real list" | NdArray "real list"

fun elems :: "sample \<Rightarrow> real list" where
  "elems (PyList xs) = xs"
| "elems (NdArray xs) = xs"

text \<open>Python's \<^verbatim>\<open>len\<close>.\<close>

definition len :: "sample \<Rightarrow> nat" where
  "len s = length (elems s)"

section \<open>The statistical primitives and the errors\<close>

text \<open>
  The functions of \<^verbatim>\<open>scipy.stats\<close> are not part of the repository. One invocation is a
  value of type \<open>call\<close>; the library is a parameter \<open>stats\<close> that gives the
  \<^verbatim>\<open>pvalue\<close> of an invocation, or \<open>None\<close> when the primitive raises.
\<close>

datatype call =
    Shapiro sample
  | Bartlett sample sample
  | TTestInd sample sample bool
  | MannWhitneyU sample sample
  | TTest1Samp sample real
  | Wilcoxon sample

type_synonym scipy_stats = "call \<Rightarrow> real option"

datatype error =
    Exception string
  | TypeError
  | ValueError
  | UnboundLocalError string
  | UnderlyingTestError call

section \<open>Local variables and the sequencing of statements\<close>

text \<open>
  The local variables that are assigned on some paths only are options (\<open>None\<close> is
  "not assigned yet"); \<open>calls\<close> records the primitives invoked so far, in order.
\<close>

record frame =
  p :: "real option"
  normality :: "bool option"
  homoscedasticity :: "bool option"
  sigTest :: "string option"
  calls :: "call list"

definition empty_frame :: frame where
  "empty_frame = \<lparr>p = None, normality = None, homoscedasticity = None, sigTest = None, calls = []\<rparr>"

type_synonym 'a run = "frame \<Rightarrow> (error + 'a) \<times> frame"

definition return :: "'a \<Rightarrow> 'a run" where
  "return x = (\<lambda>s. (Inr x, s))"

definition raise :: "error \<Rightarrow> 'a run" where
  "raise e = (\<lambda>s. (Inl e, s))"

definition and_then :: "'a run \<Rightarrow> ('a \<Rightarrow> 'b run) \<Rightarrow> 'b run" where
  "and_then m f = (\<lambda>s. case m s of (Inl e, s') \<Rightarrow> (Inl e, s') | (Inr x, s') \<Rightarrow> f x s')"

definition assign :: "(frame \<Rightarrow> frame) \<Rightarrow> unit run" where
  "assign upd = (\<lambda>s. (Inr (), upd s))"

text \<open>Reading a local variable that has no value yet raises \<^verbatim>\<open>UnboundLocalError\<close>.\<close>

definition read_var :: "string \<Rightarrow> (frame \<Rightarrow> 'a option) \<Rightarrow> 'a run" where
  "read_var name var = (\<lambda>s. case var s of None \<Rightarrow> (Inl (UnboundLocalError name), s)
                                         | Some v \<Rightarrow> (Inr v, s))"

text \<open>\<^verbatim>\<open>stats.f(...).pvalue\<close>: the invocation is recorded, then it returns or raises.\<close>

definition invoke :: "scipy_stats \<Rightarrow> call \<Rightarrow> real run" where
  "invoke stats c = (\<lambda>s. (case stats c of None \<Rightarrow> Inl (UnderlyingTestError c)
                                          | Some pvalue \<Rightarrow> Inr pvalue,
                           s\<lparr>calls := calls s @ [c]\<rparr>))"

text \<open>Python's \<^verbatim>\<open>a and b\<close> evaluates \<^verbatim>\<open>b\<close> only when \<^verbatim>\<open>a\<close> is true.\<close>

definition py_and :: "bool run \<Rightarrow> bool run \<Rightarrow> bool run" where
  "py_and a b = and_then a (\<lambda>x. if x then b else return False)"

definition py_not :: "bool run \<Rightarrow> bool run" where
  "py_not a = and_then a (\<lambda>x. return (\<not> x))"

text \<open>\<^verbatim>\<open>if c: body\<close> without an \<^verbatim>\<open>else\<close>.\<close>

definition py_if :: "bool run \<Rightarrow> unit run \<Rightarrow> unit run" where
  "py_if c body = and_then c (\<lambda>b. if b then body else return ())"

section \<open>The operator \<^verbatim>\<open>-\<close> of line 79\<close>

text \<open>
  \<^verbatim>\<open>sample1 - sample2\<close>: Python lists have no subtraction, so two lists raise
  \<^verbatim>\<open>TypeError\<close>. As soon as one operand is a one-dimensional numpy array the other one is
  converted and the result is the array of the element-wise differences; operands of
  different lengths are broadcast when one of them has length one and raise
  \<^verbatim>\<open>ValueError\<close> otherwise. The differences of the array clause are taken over the
  reals: the rounding of float64 and the wrap-around of integer arrays are not modelled,
  so what is said below about the values of an array difference is about this idealised
  subtraction. The clause for two lists is exact.
\<close>

fun sample_sub :: "sample \<Rightarrow> sample \<Rightarrow> error + sample" where
  "sample_sub (PyList xs) (PyList ys) = Inl TypeError"
| "sample_sub a b =
     (let xs = elems a; ys = elems b in
      if length xs = length ys then Inr (NdArray (map2 (-) xs ys))
      else if length xs = 1 then Inr (NdArray (map (\<lambda>y. hd xs - y) ys))
      else if length ys = 1 then Inr (NdArray (map (\<lambda>x. x - hd ys) xs))
      else Inl ValueError)"

definition lift :: "error + 'a \<Rightarrow> 'a run" where
  "lift r = (\<lambda>s. (r, s))"

section \<open>The cascade\<close>

text \<open>Lines 30 to 71, the branch \<^verbatim>\<open>if not paired\<close>.\<close>

definition unpaired :: "scipy_stats \<Rightarrow> sample \<Rightarrow> sample \<Rightarrow> real \<Rightarrow> (real \<times> string) run" where
  "unpaired stats sample1 sample2 alpha =
     and_then (invoke stats (Shapiro sample1)) (\<lambda>p1.
     and_then (invoke stats (Shapiro sample2)) (\<lambda>p2.
     and_then (if p1 > alpha \<and> p2 > alpha
               then assign (\<lambda>s. s\<lparr>normality := Some True\<rparr>)
               else assign (\<lambda>s. s\<lparr>normality := Some False\<rparr>)) (\<lambda>_.
     and_then (py_if (read_var ''normality'' normality)
                 (and_then (invoke stats (Bartlett sample1 sample2)) (\<lambda>pb.
                  and_then (assign (\<lambda>s. s\<lparr>p := Some pb\<rparr>)) (\<lambda>_.
                  if pb < alpha
                  then assign (\<lambda>s. s\<lparr>homoscedasticity := Some False\<rparr>)
                  else assign (\<lambda>s. s\<lparr>homoscedasticity := Some True\<rparr>))))) (\<lambda>_.
     and_then (py_if (py_and (read_var ''normality'' normality)
                            (read_var ''homoscedasticity'' homoscedasticity))
                 (and_then (assign (\<lambda>s. s\<lparr>sigTest := Some ''t-test''\<rparr>)) (\<lambda>_.
                  and_then (invoke stats (TTestInd sample1 sample2 True)) (\<lambda>pt.
                  assign (\<lambda>s. s\<lparr>p := Some pt\<rparr>))))) (\<lambda>_.
     and_then (py_if (py_and (read_var ''normality'' normality)
                            (py_not (read_var ''homoscedasticity'' homoscedasticity)))
                 (and_then (assign (\<lambda>s. s\<lparr>sigTest := Some ''Welch-test''\<rparr>)) (\<lambda>_.
                  and_then (invoke stats (TTestInd sample1 sample2 False)) (\<lambda>pw.
                  assign (\<lambda>s. s\<lparr>p := Some pw\<rparr>))))) (\<lambda>_.
     and_then (py_if (py_not (read_var ''normality'' normality))
                 (and_then (assign (\<lambda>s. s\<lparr>sigTest := Some ''U-test''\<rparr>)) (\<lambda>_.
                  and_then (invoke stats (MannWhitneyU sample1 sample2)) (\<lambda>pu.
                  assign (\<lambda>s. s\<lparr>p := Some pu\<rparr>))))) (\<lambda>_.
     and_then (read_var ''p'' p) (\<lambda>pv.
     and_then (read_var ''sigTest'' sigTest) (\<lambda>name.
     return (pv, name))))))))))"

text \<open>Lines 74 to 103, the branch \<^verbatim>\<open>if paired\<close>.\<close>

definition paired_branch :: "scipy_stats \<Rightarrow> sample \<Rightarrow> sample \<Rightarrow> real \<Rightarrow> (real \<times> string) run" where
  "paired_branch stats sample1 sample2 alpha =
     (if len sample1 \<noteq> len sample2
      then raise (Exception ''Unable to perform paired tests, unequal sample sizes.'')
      else
        and_then (lift (sample_sub sample1 sample2)) (\<lambda>diff.
        and_then (invoke stats (Shapiro diff)) (\<lambda>ps.
        and_then (assign (\<lambda>s. s\<lparr>p := Some ps\<rparr>)) (\<lambda>_.
        and_then (if ps < alpha
                  then assign (\<lambda>s. s\<lparr>normality := Some False\<rparr>)
                  else assign (\<lambda>s. s\<lparr>normality := Some True\<rparr>)) (\<lambda>_.
        and_then (py_if (read_var ''normality'' normality)
                    (and_then (assign (\<lambda>s. s\<lparr>sigTest := Some ''Paired t-test''\<rparr>)) (\<lambda>_.
                     and_then (invoke stats (TTest1Samp diff 0)) (\<lambda>pt.
                     assign (\<lambda>s. s\<lparr>p := Some pt\<rparr>))))) (\<lambda>_.
        and_then (py_if (py_not (read_var ''normality'' normality))
                    (and_then (assign (\<lambda>s. s\<lparr>sigTest := Some ''Wilcoxon test''\<rparr>)) (\<lambda>_.
                     and_then (invoke stats (Wilcoxon diff)) (\<lambda>pw.
                     assign (\<lambda>s. s\<lparr>p := Some pw\<rparr>))))) (\<lambda>_.
        and_then (read_var ''p'' p) (\<lambda>pv.
        and_then (read_var ''sigTest'' sigTest) (\<lambda>name.
        return (pv, name))))))))))"

text \<open>
  The function: what it returns or raises, and the primitives it invoked. \<^verbatim>\<open>paired\<close> is a
  boolean, so the second \<^verbatim>\<open>if paired:\<close> of the source is the \<open>else\<close> of the first.
\<close>

definition testingCcascade ::
  "scipy_stats \<Rightarrow> sample \<Rightarrow> sample \<Rightarrow> real \<Rightarrow> bool \<Rightarrow> (error + real \<times> string) \<times> call list" where
  "testingCcascade stats sample1 sample2 alpha paired =
     (let (r, s) = (if \<not> paired then unpaired stats sample1 sample2 alpha
                    else paired_branch stats sample1 sample2 alpha) empty_frame
      in (r, calls s))"

text \<open>Whether an operand of line 79 is a numpy array (\<^verbatim>\<open>isinstance(s, np.ndarray)\<close>).\<close>

fun is_ndarray :: "sample \<Rightarrow> bool" where
  "is_ndarray (NdArray xs) = True"
| "is_ndarray (PyList xs) = False"

section \<open>What one call does, branch by branch\<close>

lemmas run_defs = return_def raise_def and_then_def assign_def read_var_def invoke_def
  py_and_def py_not_def py_if_def lift_def empty_frame_def

text \<open>
  The unpaired branch, with the local variables eliminated: the outcome and the list of
  invocations for every way the primitives can answer.
\<close>

lemma unpaired_closed_form:
  "testingCcascade stats s1 s2 alpha False =
     (case stats (Shapiro s1) of
        None \<Rightarrow> (Inl (UnderlyingTestError (Shapiro s1)), [Shapiro s1])
      | Some p1 \<Rightarrow>
       (case stats (Shapiro s2) of
          None \<Rightarrow> (Inl (UnderlyingTestError (Shapiro s2)), [Shapiro s1, Shapiro s2])
        | Some p2 \<Rightarrow>
          if p1 > alpha \<and> p2 > alpha then
            (case stats (Bartlett s1 s2) of
               None \<Rightarrow> (Inl (UnderlyingTestError (Bartlett s1 s2)),
                         [Shapiro s1, Shapiro s2, Bartlett s1 s2])
             | Some pb \<Rightarrow>
               if pb < alpha then
                 (case stats (TTestInd s1 s2 False) of
                    None \<Rightarrow> (Inl (UnderlyingTestError (TTestInd s1 s2 False)),
                              [Shapiro s1, Shapiro s2, Bartlett s1 s2, TTestInd s1 s2 False])
                  | Some pw \<Rightarrow> (Inr (pw, ''Welch-test''),
                              [Shapiro s1, Shapiro s2, Bartlett s1 s2, TTestInd s1 s2 False]))
               else
                 (case stats (TTestInd s1 s2 True) of
                    None \<Rightarrow> (Inl (UnderlyingTestError (TTestInd s1 s2 True)),
                              [Shapiro s1, Shapiro s2, Bartlett s1 s2, TTestInd s1 s2 True])
                  | Some pt \<Rightarrow> (Inr (pt, ''t-test''),
                              [Shapiro s1, Shapiro s2, Bartlett s1 s2, TTestInd s1 s2 True])))
          else
            (case stats (MannWhitneyU s1 s2) of
               None \<Rightarrow> (Inl (UnderlyingTestError (MannWhitneyU s1 s2)),
                         [Shapiro s1, Shapiro s2, MannWhitneyU s1 s2])
             | Some pu \<Rightarrow> (Inr (pu, ''U-test''),
                         [Shapiro s1, Shapiro s2, MannWhitneyU s1 s2]))))"
  unfolding testingCcascade_def unpaired_def run_defs
  by (simp split: option.splits)

text \<open>The paired branch in the same form.\<close>

lemma paired_closed_form:
  "testingCcascade stats s1 s2 alpha True =
     (if len s1 \<noteq> len s2
      then (Inl (Exception ''Unable to perform paired tests, unequal sample sizes.''), [])
      else
       (case sample_sub s1 s2 of
          Inl e \<Rightarrow> (Inl e, [])
        | Inr d \<Rightarrow>
         (case stats (Shapiro d) of
            None \<Rightarrow> (Inl (UnderlyingTestError (Shapiro d)), [Shapiro d])
          | Some ps \<Rightarrow>
            if ps < alpha then
              (case stats (Wilcoxon d) of
                 None \<Rightarrow> (Inl (UnderlyingTestError (Wilcoxon d)), [Shapiro d, Wilcoxon d])
               | Some pw \<Rightarrow> (Inr (pw, ''Wilcoxon test''), [Shapiro d, Wilcoxon d]))
            else
              (case stats (TTest1Samp d 0) of
                 None \<Rightarrow> (Inl (UnderlyingTestError (TTest1Samp d 0)), [Shapiro d, TTest1Samp d 0])
               | Some pt \<Rightarrow> (Inr (pt, ''Paired t-test''), [Shapiro d, TTest1Samp d 0])))))"
  unfolding testingCcascade_def paired_branch_def run_defs
  by (simp split: option.splits sum.splits)

lemma sample_sub_ndarray:
  "len s1 = len s2 \<Longrightarrow> is_ndarray s1 \<or> is_ndarray s2 \<Longrightarrow>
   sample_sub s1 s2 = Inr (NdArray (map2 (-) (elems s1) (elems s2)))"
  by (cases s1; cases s2) (simp_all add: len_def)

lemma sample_sub_lists:
  "\<not> is_ndarray s1 \<Longrightarrow> \<not> is_ndarray s2 \<Longrightarrow> sample_sub s1 s2 = Inl TypeError"
  by (cases s1; cases s2) simp_all

section \<open>The unpaired branch\<close>

text \<open>
  C4. In an unpaired call whose two Shapiro-Wilk p-values both exceed \<open>alpha\<close>, Bartlett's
  test is invoked on the two samples. When its p-value is at least \<open>alpha\<close> the call
  returns the p-value of \<^verbatim>\<open>ttest_ind(..., equal_var = True)\<close> with the name "t-test";
  when it is below \<open>alpha\<close> the call returns the p-value of
  \<^verbatim>\<open>ttest_ind(..., equal_var = False)\<close> with the name "Welch-test".
\<close>

theorem normal_pair_selects_t_or_welch:
  assumes "stats (Shapiro s1) = Some p1" and "stats (Shapiro s2) = Some p2"
    and "p1 > alpha" and "p2 > alpha"
    and "stats (Bartlett s1 s2) = Some pb"
  shows "(pb \<ge> alpha \<longrightarrow> stats (TTestInd s1 s2 True) = Some pt \<longrightarrow>
            testingCcascade stats s1 s2 alpha False =
              (Inr (pt, ''t-test''),
               [Shapiro s1, Shapiro s2, Bartlett s1 s2, TTestInd s1 s2 True]))
       \<and> (pb < alpha \<longrightarrow> stats (TTestInd s1 s2 False) = Some pw \<longrightarrow>
            testingCcascade stats s1 s2 alpha False =
              (Inr (pw, ''Welch-test''),
               [Shapiro s1, Shapiro s2, Bartlett s1 s2, TTestInd s1 s2 False]))"
  using assms by (simp add: unpaired_closed_form)

theorem normal_pair_selects_t_or_welch_witness:
  "testingCcascade
     (\<lambda>c. case c of Shapiro s \<Rightarrow> Some (1/2) | Bartlett a b \<Rightarrow> Some (1/20)
                  | TTestInd a b eq \<Rightarrow> Some (if eq then 7/10 else 4/5) | _ \<Rightarrow> None)
     (NdArray [1, 2, 3]) (NdArray [4, 5]) (1/20) False =
   (Inr (7/10, ''t-test''),
    [Shapiro (NdArray [1, 2, 3]), Shapiro (NdArray [4, 5]),
     Bartlett (NdArray [1, 2, 3]) (NdArray [4, 5]),
     TTestInd (NdArray [1, 2, 3]) (NdArray [4, 5]) True])
  \<and> testingCcascade
     (\<lambda>c. case c of Shapiro s \<Rightarrow> Some (1/2) | Bartlett a b \<Rightarrow> Some (1/100)
                  | TTestInd a b eq \<Rightarrow> Some (if eq then 7/10 else 4/5) | _ \<Rightarrow> None)
     (NdArray [1, 2, 3]) (NdArray [4, 5]) (1/20) False =
   (Inr (4/5, ''Welch-test''),
    [Shapiro (NdArray [1, 2, 3]), Shapiro (NdArray [4, 5]),
     Bartlett (NdArray [1, 2, 3]) (NdArray [4, 5]),
     TTestInd (NdArray [1, 2, 3]) (NdArray [4, 5]) False])"
  using normal_pair_selects_t_or_welch
    [of "\<lambda>c. case c of Shapiro s \<Rightarrow> Some (1/2) | Bartlett a b \<Rightarrow> Some (1/20)
                  | TTestInd a b eq \<Rightarrow> Some (if eq then 7/10 else 4/5) | _ \<Rightarrow> None"
        "NdArray [1, 2, 3]" "1/2" "NdArray [4, 5]" "1/2" "1/20" "1/20" "7/10" "4/5"]
    normal_pair_selects_t_or_welch
    [of "\<lambda>c. case c of Shapiro s \<Rightarrow> Some (1/2) | Bartlett a b \<Rightarrow> Some (1/100)
                  | TTestInd a b eq \<Rightarrow> Some (if eq then 7/10 else 4/5) | _ \<Rightarrow> None"
        "NdArray [1, 2, 3]" "1/2" "NdArray [4, 5]" "1/2" "1/20" "1/100" "7/10" "4/5"]
  by simp

text \<open>
  C5. In an unpaired call in which at least one Shapiro-Wilk p-value does not exceed
  \<open>alpha\<close>, the call returns the p-value of \<^verbatim>\<open>mannwhitneyu\<close> with the name "U-test", and
  the invocations are the two Shapiro-Wilk tests and the U-test: Bartlett's test is not
  invoked, whatever it would have answered.
\<close>

theorem non_normal_pair_selects_u_test:
  assumes "stats (Shapiro s1) = Some p1" and "stats (Shapiro s2) = Some p2"
    and "\<not> (p1 > alpha \<and> p2 > alpha)"
    and "stats (MannWhitneyU s1 s2) = Some pu"
  shows "testingCcascade stats s1 s2 alpha False =
           (Inr (pu, ''U-test''), [Shapiro s1, Shapiro s2, MannWhitneyU s1 s2])"
  using assms by (auto simp: unpaired_closed_form)

theorem non_normal_pair_selects_u_test_witness:
  "testingCcascade
     (\<lambda>c. case c of Shapiro s \<Rightarrow> Some (if s = NdArray [1, 2, 3] then 1/2 else 1/100)
                  | MannWhitneyU a b \<Rightarrow> Some (3/10) | _ \<Rightarrow> None)
     (NdArray [1, 2, 3]) (PyList [4, 5]) (1/20) False =
   (Inr (3/10, ''U-test''),
    [Shapiro (NdArray [1, 2, 3]), Shapiro (PyList [4, 5]),
     MannWhitneyU (NdArray [1, 2, 3]) (PyList [4, 5])])"
  using non_normal_pair_selects_u_test
    [of "\<lambda>c. case c of Shapiro s \<Rightarrow> Some (if s = NdArray [1, 2, 3] then 1/2 else 1/100)
                  | MannWhitneyU a b \<Rightarrow> Some (3/10) | _ \<Rightarrow> None"
        "NdArray [1, 2, 3]" "1/2" "PyList [4, 5]" "1/100" "1/20" "3/10"]
  by simp

text \<open>An unpaired call fails only when a primitive raises, and returns when none does.\<close>

lemma unpaired_error_is_underlying:
  "fst (testingCcascade stats s1 s2 alpha False) = Inl e \<Longrightarrow> \<exists>c. e = UnderlyingTestError c"
  by (auto simp: unpaired_closed_form split: option.splits if_splits)

lemma unpaired_error_is_invoked:
  "fst (testingCcascade stats s1 s2 alpha False) = Inl e \<Longrightarrow>
   \<exists>c \<in> set (snd (testingCcascade stats s1 s2 alpha False)).
      e = UnderlyingTestError c \<and> stats c = None"
  by (auto simp: unpaired_closed_form split: option.splits if_splits)

lemma unpaired_returns:
  assumes "\<forall>c. stats c \<noteq> None"
  shows "\<exists>pv name. fst (testingCcascade stats s1 s2 alpha False) = Inr (pv, name)"
proof -
  obtain p1 p2 pb pt pw pu where
    "stats (Shapiro s1) = Some p1" "stats (Shapiro s2) = Some p2"
    "stats (Bartlett s1 s2) = Some pb" "stats (TTestInd s1 s2 True) = Some pt"
    "stats (TTestInd s1 s2 False) = Some pw" "stats (MannWhitneyU s1 s2) = Some pu"
    using assms by (meson option.exhaust)
  then show ?thesis
    by (simp add: unpaired_closed_form)
qed

lemma unpaired_name_in_enumeration:
  "fst (testingCcascade stats s1 s2 alpha False) = Inr (pv, name) \<Longrightarrow>
   name \<in> {''t-test'', ''Welch-test'', ''U-test''}"
  by (auto simp: unpaired_closed_form split: option.splits if_splits)

text \<open>
  When the unpaired branch reaches its \<^verbatim>\<open>return\<close>, the variable \<^verbatim>\<open>homoscedasticity\<close> has a
  value if \<^verbatim>\<open>normality\<close> is true.
\<close>

lemma unpaired_final_frame:
  "unpaired stats s1 s2 alpha empty_frame = (Inr r, s) \<Longrightarrow>
   normality s = Some True \<Longrightarrow> homoscedasticity s \<noteq> None"
  unfolding unpaired_def run_defs
  by (auto split: option.splits if_splits)

text \<open>
  C9. No unpaired call ends in \<^verbatim>\<open>UnboundLocalError\<close>, whatever the primitives answer: the
  two conditions that read \<^verbatim>\<open>homoscedasticity\<close> evaluate it only after \<^verbatim>\<open>normality\<close> was
  found true, and then line 47 or line 49 has assigned it. A call that reaches the
  \<^verbatim>\<open>return\<close> with \<^verbatim>\<open>normality\<close> true has \<^verbatim>\<open>homoscedasticity\<close> assigned, and a call whose
  primitives all return gives back a pair of a p-value and a name.
\<close>

theorem unpaired_reads_no_unassigned_variable:
  "(\<forall>v. fst (testingCcascade stats s1 s2 alpha False) \<noteq> Inl (UnboundLocalError v))
   \<and> (\<forall>r s. unpaired stats s1 s2 alpha empty_frame = (Inr r, s) \<longrightarrow>
          normality s = Some True \<longrightarrow> homoscedasticity s \<noteq> None)
   \<and> ((\<forall>c. stats c \<noteq> None) \<longrightarrow>
        (\<exists>pv name. fst (testingCcascade stats s1 s2 alpha False) = Inr (pv, name)))"
proof (intro conjI allI impI)
  fix v
  show "fst (testingCcascade stats s1 s2 alpha False) \<noteq> Inl (UnboundLocalError v)"
    using unpaired_error_is_underlying [of stats s1 s2 alpha "UnboundLocalError v"] by auto
next
  fix r s
  assume "unpaired stats s1 s2 alpha empty_frame = (Inr r, s)" and "normality s = Some True"
  then show "homoscedasticity s \<noteq> None"
    by (rule unpaired_final_frame)
next
  assume "\<forall>c. stats c \<noteq> None"
  then show "\<exists>pv name. fst (testingCcascade stats s1 s2 alpha False) = Inr (pv, name)"
    by (rule unpaired_returns)
qed

theorem unpaired_reads_no_unassigned_variable_witness:
  "fst (testingCcascade (\<lambda>c. Some (1/2)) (NdArray [1, 2, 3]) (NdArray [4, 5]) (1/20) False)
     = Inr (1/2, ''t-test'')
   \<and> normality (snd (unpaired (\<lambda>c. Some (1/2)) (NdArray [1, 2, 3]) (NdArray [4, 5]) (1/20)
                       empty_frame)) = Some True
   \<and> homoscedasticity (snd (unpaired (\<lambda>c. Some (1/2)) (NdArray [1, 2, 3]) (NdArray [4, 5]) (1/20)
                       empty_frame)) = Some True"
  using unpaired_reads_no_unassigned_variable
    [of "\<lambda>c. Some (1/2)" "NdArray [1, 2, 3]" "NdArray [4, 5]" "1/20"]
  by (simp add: unpaired_closed_form unpaired_def run_defs)

text \<open>
  C10. The unpaired branch compares no lengths: for any two samples, of equal lengths or
  not, an unpaired call runs the whole cascade. It never raises the exception of
  line 76, and it fails only with the error of a primitive that it invoked and that
  raised. Otherwise it invokes Shapiro-Wilk on each sample and then either Bartlett and
  one of the two t-tests, or the U-test, and returns the p-value of that last test with
  its name.
\<close>

theorem unpaired_has_no_length_check:
  "(\<forall>msg. fst (testingCcascade stats s1 s2 alpha False) \<noteq> Inl (Exception msg))
   \<and> (\<forall>e. fst (testingCcascade stats s1 s2 alpha False) = Inl e \<longrightarrow>
          (\<exists>c \<in> set (snd (testingCcascade stats s1 s2 alpha False)).
              e = UnderlyingTestError c \<and> stats c = None))
   \<and> (stats (Shapiro s1) = Some p1 \<and> stats (Shapiro s2) = Some p2
        \<and> p1 > alpha \<and> p2 > alpha
        \<and> stats (Bartlett s1 s2) = Some pb \<and> pb \<ge> alpha
        \<and> stats (TTestInd s1 s2 True) = Some pt \<longrightarrow>
        testingCcascade stats s1 s2 alpha False =
          (Inr (pt, ''t-test''),
           [Shapiro s1, Shapiro s2, Bartlett s1 s2, TTestInd s1 s2 True]))
   \<and> (stats (Shapiro s1) = Some p1 \<and> stats (Shapiro s2) = Some p2
        \<and> p1 > alpha \<and> p2 > alpha
        \<and> stats (Bartlett s1 s2) = Some pb \<and> pb < alpha
        \<and> stats (TTestInd s1 s2 False) = Some pw \<longrightarrow>
        testingCcascade stats s1 s2 alpha False =
          (Inr (pw, ''Welch-test''),
           [Shapiro s1, Shapiro s2, Bartlett s1 s2, TTestInd s1 s2 False]))
   \<and> (stats (Shapiro s1) = Some p1 \<and> stats (Shapiro s2) = Some p2
        \<and> \<not> (p1 > alpha \<and> p2 > alpha)
        \<and> stats (MannWhitneyU s1 s2) = Some pu \<longrightarrow>
        testingCcascade stats s1 s2 alpha False =
          (Inr (pu, ''U-test''), [Shapiro s1, Shapiro s2, MannWhitneyU s1 s2]))"
proof (intro conjI allI impI)
  fix msg
  show "fst (testingCcascade stats s1 s2 alpha False) \<noteq> Inl (Exception msg)"
    using unpaired_error_is_underlying [of stats s1 s2 alpha "Exception msg"] by auto
next
  fix e
  assume "fst (testingCcascade stats s1 s2 alpha False) = Inl e"
  then show "\<exists>c \<in> set (snd (testingCcascade stats s1 s2 alpha False)).
               e = UnderlyingTestError c \<and> stats c = None"
    by (rule unpaired_error_is_invoked)
next
  assume "stats (Shapiro s1) = Some p1 \<and> stats (Shapiro s2) = Some p2
        \<and> p1 > alpha \<and> p2 > alpha
        \<and> stats (Bartlett s1 s2) = Some pb \<and> pb \<ge> alpha
        \<and> stats (TTestInd s1 s2 True) = Some pt"
  then show "testingCcascade stats s1 s2 alpha False =
          (Inr (pt, ''t-test''),
           [Shapiro s1, Shapiro s2, Bartlett s1 s2, TTestInd s1 s2 True])"
    by (simp add: unpaired_closed_form)
next
  assume "stats (Shapiro s1) = Some p1 \<and> stats (Shapiro s2) = Some p2
        \<and> p1 > alpha \<and> p2 > alpha
        \<and> stats (Bartlett s1 s2) = Some pb \<and> pb < alpha
        \<and> stats (TTestInd s1 s2 False) = Some pw"
  then show "testingCcascade stats s1 s2 alpha False =
          (Inr (pw, ''Welch-test''),
           [Shapiro s1, Shapiro s2, Bartlett s1 s2, TTestInd s1 s2 False])"
    by (simp add: unpaired_closed_form)
next
  assume "stats (Shapiro s1) = Some p1 \<and> stats (Shapiro s2) = Some p2
        \<and> \<not> (p1 > alpha \<and> p2 > alpha)
        \<and> stats (MannWhitneyU s1 s2) = Some pu"
  then show "testingCcascade stats s1 s2 alpha False =
          (Inr (pu, ''U-test''), [Shapiro s1, Shapiro s2, MannWhitneyU s1 s2])"
    by (auto simp: unpaired_closed_form)
qed

theorem unpaired_has_no_length_check_witness:
  "len (NdArray [1, 2, 3]) \<noteq> len (NdArray [4, 5])
   \<and> testingCcascade
       (\<lambda>c. case c of Shapiro s \<Rightarrow> Some (1/2) | Bartlett a b \<Rightarrow> Some (1/5)
                    | TTestInd a b eq \<Rightarrow> (if eq then Some (7/10) else None) | _ \<Rightarrow> None)
       (NdArray [1, 2, 3]) (NdArray [4, 5]) (1/20) False
     = (Inr (7/10, ''t-test''),
        [Shapiro (NdArray [1, 2, 3]), Shapiro (NdArray [4, 5]),
         Bartlett (NdArray [1, 2, 3]) (NdArray [4, 5]),
         TTestInd (NdArray [1, 2, 3]) (NdArray [4, 5]) True])
   \<and> testingCcascade
       (\<lambda>c. case c of Shapiro s \<Rightarrow> Some (1/2) | Bartlett a b \<Rightarrow> Some (1/100)
                    | TTestInd a b eq \<Rightarrow> (if eq then None else Some (4/5)) | _ \<Rightarrow> None)
       (NdArray [1, 2, 3]) (NdArray [4, 5]) (1/20) False
     = (Inr (4/5, ''Welch-test''),
        [Shapiro (NdArray [1, 2, 3]), Shapiro (NdArray [4, 5]),
         Bartlett (NdArray [1, 2, 3]) (NdArray [4, 5]),
         TTestInd (NdArray [1, 2, 3]) (NdArray [4, 5]) False])
   \<and> testingCcascade
       (\<lambda>c. case c of Shapiro s \<Rightarrow> Some (1/100) | MannWhitneyU a b \<Rightarrow> Some (3/10)
                    | _ \<Rightarrow> None)
       (NdArray [1, 2, 3]) (NdArray [4, 5]) (1/20) False
     = (Inr (3/10, ''U-test''),
        [Shapiro (NdArray [1, 2, 3]), Shapiro (NdArray [4, 5]),
         MannWhitneyU (NdArray [1, 2, 3]) (NdArray [4, 5])])"
  using unpaired_has_no_length_check
    [of "\<lambda>c. case c of Shapiro s \<Rightarrow> Some (1/2) | Bartlett a b \<Rightarrow> Some (1/5)
                    | TTestInd a b eq \<Rightarrow> (if eq then Some (7/10) else None) | _ \<Rightarrow> None"
        "NdArray [1, 2, 3]" "NdArray [4, 5]" "1/20" "1/2" "1/2" "1/5" "7/10"]
    unpaired_has_no_length_check
    [of "\<lambda>c. case c of Shapiro s \<Rightarrow> Some (1/2) | Bartlett a b \<Rightarrow> Some (1/100)
                    | TTestInd a b eq \<Rightarrow> (if eq then None else Some (4/5)) | _ \<Rightarrow> None"
        "NdArray [1, 2, 3]" "NdArray [4, 5]" "1/20" "1/2" "1/2" "1/100" _ "4/5"]
    unpaired_has_no_length_check
    [of "\<lambda>c. case c of Shapiro s \<Rightarrow> Some (1/100) | MannWhitneyU a b \<Rightarrow> Some (3/10)
                    | _ \<Rightarrow> None"
        "NdArray [1, 2, 3]" "NdArray [4, 5]" "1/20" "1/100" "1/100" _ _ _ "3/10"]
  by (simp add: len_def)

section \<open>The paired branch\<close>

text \<open>The exception of line 76 and nothing else of that kind.\<close>

lemma sample_sub_no_exception: "sample_sub s1 s2 \<noteq> Inl (Exception msg)"
  by (cases s1; cases s2) (simp_all add: Let_def)

lemma exception_iff_length_mismatch:
  "fst (testingCcascade stats s1 s2 alpha paired) = Inl (Exception msg) \<longleftrightarrow>
     paired \<and> len s1 \<noteq> len s2 \<and> msg = ''Unable to perform paired tests, unequal sample sizes.''"
proof (cases paired)
  case False
  then show ?thesis
    using unpaired_error_is_underlying [of stats s1 s2 alpha "Exception msg"] by auto
next
  case True
  then show ?thesis
    using sample_sub_no_exception [of s1 s2 msg]
    by (auto simp: paired_closed_form split: option.splits sum.splits)
qed

lemma paired_name_in_enumeration:
  "fst (testingCcascade stats s1 s2 alpha True) = Inr (pv, name) \<Longrightarrow>
   name \<in> {''Paired t-test'', ''Wilcoxon test''}"
  by (auto simp: paired_closed_form split: option.splits if_splits sum.splits)

lemma paired_ndarray_selects_test:
  assumes "len s1 = len s2" and "is_ndarray s1 \<or> is_ndarray s2"
    and "d = NdArray (map2 (-) (elems s1) (elems s2))"
    and "stats (Shapiro d) = Some ps"
  shows "(ps \<ge> alpha \<longrightarrow> stats (TTest1Samp d 0) = Some pt \<longrightarrow>
            testingCcascade stats s1 s2 alpha True =
              (Inr (pt, ''Paired t-test''), [Shapiro d, TTest1Samp d 0]))
       \<and> (ps < alpha \<longrightarrow> stats (Wilcoxon d) = Some pw \<longrightarrow>
            testingCcascade stats s1 s2 alpha True =
              (Inr (pw, ''Wilcoxon test''), [Shapiro d, Wilcoxon d]))"
proof -
  have "sample_sub s1 s2 = Inr d"
    using assms(1,2,3) by (simp add: sample_sub_ndarray)
  with assms(1,4) show ?thesis
    by (simp add: paired_closed_form)
qed

lemma difference_elementwise:
  assumes "len s1 = len s2"
  shows "length (map2 (-) (elems s1) (elems s2)) = len s1
       \<and> (\<forall>i < len s1. map2 (-) (elems s1) (elems s2) ! i = elems s1 ! i - elems s2 ! i)"
  using assms by (simp add: len_def)

lemma paired_lists_raise_type_error:
  assumes "len s1 = len s2" and "\<not> is_ndarray s1" and "\<not> is_ndarray s2"
  shows "testingCcascade stats s1 s2 alpha True = (Inl TypeError, [])"
  using assms by (simp add: paired_closed_form sample_sub_lists)

section \<open>Every way a call can fail\<close>

lemma sample_sub_error:
  "len s1 = len s2 \<Longrightarrow> sample_sub s1 s2 = Inl e \<Longrightarrow>
   e = TypeError \<and> \<not> is_ndarray s1 \<and> \<not> is_ndarray s2"
  by (cases s1; cases s2) (simp_all add: len_def)

lemma paired_error_outcomes:
  assumes "fst (testingCcascade stats s1 s2 alpha True) = Inl e"
  shows "(len s1 \<noteq> len s2
            \<and> e = Exception ''Unable to perform paired tests, unequal sample sizes.''
            \<and> snd (testingCcascade stats s1 s2 alpha True) = [])
       \<or> (len s1 = len s2 \<and> \<not> is_ndarray s1 \<and> \<not> is_ndarray s2 \<and> e = TypeError
            \<and> snd (testingCcascade stats s1 s2 alpha True) = [])
       \<or> (\<exists>c \<in> set (snd (testingCcascade stats s1 s2 alpha True)).
              e = UnderlyingTestError c \<and> stats c = None)"
proof (cases "len s1 \<noteq> len s2")
  case True
  with assms show ?thesis by (simp add: paired_closed_form)
next
  case eq: False
  show ?thesis
  proof (cases "sample_sub s1 s2")
    case (Inl e')
    with eq assms sample_sub_error [of s1 s2 e'] show ?thesis
      by (simp add: paired_closed_form)
  next
    case d: (Inr d)
    show ?thesis
    proof (cases "stats (Shapiro d)")
      case None
      with eq d assms show ?thesis by (auto simp: paired_closed_form)
    next
      case ps: (Some ps)
      show ?thesis
      proof (cases "ps < alpha")
        case True
        with eq d ps assms show ?thesis
          by (cases "stats (Wilcoxon d)") (auto simp: paired_closed_form)
      next
        case False
        with eq d ps assms show ?thesis
          by (cases "stats (TTest1Samp d 0)") (auto simp: paired_closed_form)
      qed
    qed
  qed
qed

text \<open>
  The three ways a call fails: the exception of line 76, raised before any primitive is
  invoked and before the subtraction; the \<^verbatim>\<open>TypeError\<close> of line 79 on two lists of equal
  length, also before any primitive; the error of a primitive that was invoked and raised.
\<close>

lemma cascade_error_outcomes:
  assumes "fst (testingCcascade stats s1 s2 alpha paired) = Inl e"
  shows "(paired \<and> len s1 \<noteq> len s2
            \<and> e = Exception ''Unable to perform paired tests, unequal sample sizes.''
            \<and> snd (testingCcascade stats s1 s2 alpha paired) = [])
       \<or> (paired \<and> len s1 = len s2 \<and> \<not> is_ndarray s1 \<and> \<not> is_ndarray s2 \<and> e = TypeError
            \<and> snd (testingCcascade stats s1 s2 alpha paired) = [])
       \<or> (\<exists>c \<in> set (snd (testingCcascade stats s1 s2 alpha paired)).
              e = UnderlyingTestError c \<and> stats c = None)"
proof (cases paired)
  case True
  with assms paired_error_outcomes [of stats s1 s2 alpha e] show ?thesis by simp
next
  case False
  with assms unpaired_error_is_invoked [of stats s1 s2 alpha e] show ?thesis by simp
qed

lemma length_mismatch_precedes_everything:
  "len s1 \<noteq> len s2 \<Longrightarrow>
   testingCcascade stats s1 s2 alpha True =
     (Inl (Exception ''Unable to perform paired tests, unequal sample sizes.''), [])"
  by (simp add: paired_closed_form)

text \<open>
  C3, evaluated at two lists of equal length in paired mode. The lengths agree, so the
  check of line 75 passes; the call still fails, with no primitive invoked, and the error
  is neither the exception of line 76 nor that of a primitive. The length mismatch is
  therefore not the only condition on which the cascade itself fails.
\<close>

theorem equal_length_lists_fail_without_a_primitive:
  "len (PyList [2, 4, 6]) = len (PyList [1, 3, 5])
   \<and> (\<exists>e. testingCcascade (\<lambda>c. Some (1/2)) (PyList [2, 4, 6]) (PyList [1, 3, 5]) (1/20) True
             = (Inl e, [])
          \<and> (\<forall>msg. e \<noteq> Exception msg) \<and> (\<forall>c. e \<noteq> UnderlyingTestError c))"
  by (simp add: paired_closed_form len_def)

text \<open>
  C2, evaluated at two lists of equal length in paired mode. Whatever the primitives
  answer and whatever \<open>alpha\<close> is, the call returns no test name at all.
\<close>

theorem paired_lists_return_no_name:
  "len (PyList [2, 4]) = len (PyList [1, 3])
   \<and> (\<forall>pv name. fst (testingCcascade stats (PyList [2, 4]) (PyList [1, 3]) alpha True)
                   \<noteq> Inr (pv, name))"
  by (simp add: paired_closed_form len_def)

section \<open>Primitives that are not invoked\<close>

text \<open>
  Two libraries that agree on the invocations one call makes lead that call to the same
  outcome and the same invocations.
\<close>

lemma unpaired_same_calls:
  assumes "\<forall>c \<in> set (snd (testingCcascade stats s1 s2 alpha False)). stats' c = stats c"
  shows "testingCcascade stats' s1 s2 alpha False = testingCcascade stats s1 s2 alpha False"
proof (cases "stats (Shapiro s1)")
  case None
  with assms show ?thesis by (simp add: unpaired_closed_form)
next
  case p1: (Some p1)
  show ?thesis
  proof (cases "stats (Shapiro s2)")
    case None
    with p1 assms show ?thesis by (simp add: unpaired_closed_form)
  next
    case p2: (Some p2)
    show ?thesis
    proof (cases "p1 > alpha \<and> p2 > alpha")
      case False
      with p1 p2 assms show ?thesis
        by (cases "stats (MannWhitneyU s1 s2)") (auto simp: unpaired_closed_form)
    next
      case normal: True
      show ?thesis
      proof (cases "stats (Bartlett s1 s2)")
        case None
        with p1 p2 normal assms show ?thesis by (simp add: unpaired_closed_form)
      next
        case pb: (Some pb)
        show ?thesis
        proof (cases "pb < alpha")
          case True
          with p1 p2 pb normal assms show ?thesis
            by (cases "stats (TTestInd s1 s2 False)") (simp_all add: unpaired_closed_form)
        next
          case False
          with p1 p2 pb normal assms show ?thesis
            by (cases "stats (TTestInd s1 s2 True)") (simp_all add: unpaired_closed_form)
        qed
      qed
    qed
  qed
qed

lemma paired_same_calls:
  assumes "\<forall>c \<in> set (snd (testingCcascade stats s1 s2 alpha True)). stats' c = stats c"
  shows "testingCcascade stats' s1 s2 alpha True = testingCcascade stats s1 s2 alpha True"
proof (cases "len s1 \<noteq> len s2")
  case True
  then show ?thesis by (simp add: paired_closed_form)
next
  case eq: False
  show ?thesis
  proof (cases "sample_sub s1 s2")
    case (Inl e)
    with eq show ?thesis by (simp add: paired_closed_form)
  next
    case d: (Inr d)
    show ?thesis
    proof (cases "stats (Shapiro d)")
      case None
      with eq d assms show ?thesis by (simp add: paired_closed_form)
    next
      case ps: (Some ps)
      show ?thesis
      proof (cases "ps < alpha")
        case True
        with eq d ps assms show ?thesis
          by (cases "stats (Wilcoxon d)") (simp_all add: paired_closed_form)
      next
        case False
        with eq d ps assms show ?thesis
          by (cases "stats (TTest1Samp d 0)") (simp_all add: paired_closed_form)
      qed
    qed
  qed
qed

section \<open>A p-value equal to \<open>alpha\<close>\<close>

text \<open>
  C1, evaluated where both Shapiro-Wilk p-values equal \<open>alpha\<close>. Line 36 asks for
  \<^verbatim>\<open>p1 > alpha\<close> and \<^verbatim>\<open>p2 > alpha\<close>, so the pair is classified as not normal and the call
  returns the U-test, neither the t-test nor the Welch test.
\<close>

theorem boundary_p_values_select_u_test:
  "testingCcascade (\<lambda>c. case c of Shapiro s \<Rightarrow> Some (1/20) | _ \<Rightarrow> Some (3/10))
     (NdArray [1, 2, 3, 5]) (NdArray [1, 2, 3, 5]) (1/20) False
   = (Inr (3/10, ''U-test''),
      [Shapiro (NdArray [1, 2, 3, 5]), Shapiro (NdArray [1, 2, 3, 5]),
       MannWhitneyU (NdArray [1, 2, 3, 5]) (NdArray [1, 2, 3, 5])])"
  by (simp add: unpaired_closed_form)

text \<open>
  The other two diagnostics of the function reject only below \<open>alpha\<close> (lines 46 and 85):
  with the same p-value the paired branch classifies the differences as normal, and
  Bartlett's test at \<open>alpha\<close> counts as equal variances.
\<close>

lemma paired_boundary_p_value_is_normal:
  "testingCcascade (\<lambda>c. case c of Shapiro s \<Rightarrow> Some (1/20) | _ \<Rightarrow> Some (3/10))
     (NdArray [1, 2, 3, 5]) (NdArray [1, 2, 4, 4]) (1/20) True
   = (Inr (3/10, ''Paired t-test''),
      [Shapiro (NdArray [0, 0, -1, 1]), TTest1Samp (NdArray [0, 0, -1, 1]) 0])"
  by (simp add: paired_closed_form len_def)

lemma bartlett_boundary_p_value_is_homoscedastic:
  "testingCcascade (\<lambda>c. case c of Bartlett a b \<Rightarrow> Some (1/20) | _ \<Rightarrow> Some (3/10))
     (NdArray [1, 2, 3, 5]) (NdArray [1, 2, 4, 4]) (1/20) False
   = (Inr (3/10, ''t-test''),
      [Shapiro (NdArray [1, 2, 3, 5]), Shapiro (NdArray [1, 2, 4, 4]),
       Bartlett (NdArray [1, 2, 3, 5]) (NdArray [1, 2, 4, 4]),
       TTestInd (NdArray [1, 2, 3, 5]) (NdArray [1, 2, 4, 4]) True])"
  by (simp add: unpaired_closed_form)

section \<open>Paired calls on two Python lists\<close>

text \<open>
  C6, evaluated at two lists of equal length. The call invokes no primitive, so no
  Shapiro-Wilk test is run on the differences, and it returns neither the paired t-test
  (for a library whose Shapiro-Wilk p-value is above \<open>alpha\<close>) nor the Wilcoxon test (for
  one whose p-value is below).
\<close>

theorem paired_lists_reach_no_test:
  "len (PyList [5, 7, 6]) = len (PyList [4, 9, 6])
   \<and> snd (testingCcascade (\<lambda>c. Some (1/2)) (PyList [5, 7, 6]) (PyList [4, 9, 6]) (1/20) True) = []
   \<and> fst (testingCcascade (\<lambda>c. Some (1/2)) (PyList [5, 7, 6]) (PyList [4, 9, 6]) (1/20) True)
       \<noteq> Inr (1/2, ''Paired t-test'')
   \<and> fst (testingCcascade (\<lambda>c. Some (1/100)) (PyList [5, 7, 6]) (PyList [4, 9, 6]) (1/20) True)
       \<noteq> Inr (1/100, ''Wilcoxon test'')"
  by (simp add: paired_closed_form len_def)

text \<open>
  C7, evaluated at two lists of equal length. Line 79 raises \<^verbatim>\<open>TypeError\<close>: there is no
  difference sequence, and the call ends with that error before any test.
\<close>

theorem list_difference_raises_type_error:
  "len (PyList [1, 2, 3]) = len (PyList [3/2, 5/2, 2])
   \<and> sample_sub (PyList [1, 2, 3]) (PyList [3/2, 5/2, 2]) = Inl TypeError
   \<and> testingCcascade (\<lambda>c. Some (1/2)) (PyList [1, 2, 3]) (PyList [3/2, 5/2, 2]) (1/20) True
       = (Inl TypeError, [])"
  by (simp add: paired_closed_form len_def)

end
